theory Spec2Isabelle
  imports Main
begin

section \<open>Tenant Resolver (src/middleware/tenant.js, extractTenantFromHost)\<close>

text \<open>
  A host is a JavaScript string or null/undefined; \<open>None\<close> stands for the latter two.
  The result is the captured label, or \<open>None\<close> for JavaScript's null ("no tenant").
\<close>

text \<open>\<^verbatim>\<open>host.split(':')[0]\<close>: the part of the string before the first colon.\<close>

definition splitColonHead :: "string \<Rightarrow> string" where
  "splitColonHead host = takeWhile (\<lambda>c. c \<noteq> CHR '':'') host"

text \<open>
  Every pattern of the source has the shape \<^verbatim>\<open>/^([^.]+)\.D$/\<close> for a literal domain D
  (the dots of D escaped), so a pattern is represented by D. The group \<^verbatim>\<open>[^.]+\<close> is
  followed by a literal dot, hence it captures the longest dot-free prefix, which must be
  non-empty; the rest of the input must be the dot and D up to the end of the string
  (no flags: \<^verbatim>\<open>$\<close> is the end of input only). \<open>regexMatch\<close> returns capture group 1,
  or \<open>None\<close> where \<^verbatim>\<open>String.prototype.match\<close> returns null.
\<close>

type_synonym pattern = string

definition regexMatch :: "pattern \<Rightarrow> string \<Rightarrow> string option" where
  "regexMatch d s =
     (let grp = takeWhile (\<lambda>c. c \<noteq> CHR ''.'') s;
          rest = dropWhile (\<lambda>c. c \<noteq> CHR ''.'') s
      in if grp \<noteq> [] \<and> rest = CHR ''.'' # d then Some grp else None)"

definition devPatterns :: "pattern list" where
  "devPatterns = [''localhost'', ''lvh.me'']"

definition prodPattern :: pattern where
  "prodPattern = ''myapp.com''"

text \<open>The \<^verbatim>\<open>for (const pattern of devPatterns)\<close> loop: the first match that is not www.\<close>

fun devLoop :: "pattern list \<Rightarrow> string \<Rightarrow> string option" where
  "devLoop [] cleanHost = None"
| "devLoop (p # ps) cleanHost =
     (case regexMatch p cleanHost of
        Some m1 \<Rightarrow> if m1 \<noteq> ''www'' then Some m1 else devLoop ps cleanHost
      | None \<Rightarrow> devLoop ps cleanHost)"

definition extractTenantFromHost :: "string option \<Rightarrow> string option" where
  "extractTenantFromHost host =
     (case host of
        None \<Rightarrow> None
      | Some h \<Rightarrow>
          if h = [] then None
          else
            let cleanHost = splitColonHead h in
            (case devLoop devPatterns cleanHost of
               Some m1 \<Rightarrow> Some m1
             | None \<Rightarrow>
                 (case regexMatch prodPattern cleanHost of
                    Some m1 \<Rightarrow> if m1 \<noteq> ''www'' then Some m1 else None
                  | None \<Rightarrow> None)))"

text \<open>
  A label, as the claims use the word: a non-empty piece of a host name, so it holds
  neither the separator of labels nor the separator of the port.
\<close>

definition isLabel :: "string \<Rightarrow> bool" where
  "isLabel l = (l \<noteq> [] \<and> CHR ''.'' \<notin> set l \<and> CHR '':'' \<notin> set l)"

text \<open>
  The characters of a bare IP address with an optional port: decimal and hexadecimal
  digits, the dot of IPv4, the colon and the brackets of IPv6.
\<close>

definition ipChar :: "char \<Rightarrow> bool" where
  "ipChar c = (c \<in> set ''0123456789abcdefABCDEF.:[]'')"

definition isBareIp :: "string \<Rightarrow> bool" where
  "isBareIp h = list_all ipChar h"

text \<open>The shape of a stored tenant identifier (the Tenant schema's subdomain field).\<close>

definition slugChar :: "char \<Rightarrow> bool" where
  "slugChar c = (c \<in> set ''abcdefghijklmnopqrstuvwxyz0123456789-'')"

definition isSlug :: "string \<Rightarrow> bool" where
  "isSlug s = (list_all slugChar s \<and> 3 \<le> length s \<and> length s \<le> 30)"


section \<open>Connection Pool Registry (src/config/database.js, class DatabaseManager)\<close>

subsection \<open>Values, errors and the world outside the registry\<close>

text \<open>The values an identifier argument can hold: null, undefined or a string.\<close>

datatype jsval = JNull | JUndefined | JStr string

definition truthy :: "jsval \<Rightarrow> bool" where
  "truthy v = (case v of JStr s \<Rightarrow> s \<noteq> [] | _ \<Rightarrow> False)"

text \<open>The text a value contributes to a template literal.\<close>

definition toStr :: "jsval \<Rightarrow> string" where
  "toStr v = (case v of JStr s \<Rightarrow> s | JNull \<Rightarrow> ''null'' | JUndefined \<Rightarrow> ''undefined'')"

text \<open>\<^verbatim>\<open>new Error(message)\<close>; a thrown value is the \<open>Inl\<close> of a result.\<close>

datatype error = Error string

fun errMessage :: "error \<Rightarrow> string" where
  "errMessage (Error msg) = msg"

text \<open>
  A connection object: \<open>connId\<close> is the identity of the object (two handles are the same
  instance iff they have the same \<open>connId\<close>), \<open>connString\<close> the connection string it was
  opened with. The pool options, the same constants at every creation, are left out.
\<close>

record connection =
  connId :: nat
  connString :: string

text \<open>The Tenant documents of the master database, as far as the binder reads them.\<close>

record tenant =
  subdomain :: string
  isActive :: bool
  companyName :: string

text \<open>
  What the program does to the outside, in order: calls of the database client
  (\<^verbatim>\<open>mongoose.createConnection\<close>, \<^verbatim>\<open>connection.close\<close>, \<^verbatim>\<open>Tenant.findOne\<close>,
  \<^verbatim>\<open>createIndex\<close>), the error messages given to \<^verbatim>\<open>console.error\<close>, and a mark for each
  entry into \<^verbatim>\<open>getTenantDB\<close> with its argument. The success messages of
  \<^verbatim>\<open>console.log\<close> are left out.
\<close>

datatype event =
    CreateConnection string
  | Close connection
  | FindOne string
  | CreateIndex connection string string int
  | ConsoleError string
  | Enter_getTenantDB jsval

text \<open>
  The world outside the registry: the two environment variables, the Tenant collection
  in its natural order, and the database client. The client is asynchronous and may
  reject any call: \<open>fault w n\<close> is the error with which the call number \<open>n\<close> of the run
  is rejected, if it is; \<open>tick\<close> counts the calls made. Every sequence of successes and
  failures is some \<open>fault\<close>. The requests of one run are handled one after the other.
\<close>

record world =
  MONGODB_URI :: string
  MONGODB_OPTIONS :: string
  tenants :: "tenant list"
  fault :: "nat \<Rightarrow> error option"
  tick :: nat
  nextConnId :: nat
  trace :: "event list"

definition consoleError :: "string \<Rightarrow> world \<Rightarrow> world" where
  "consoleError msg w = w\<lparr>trace := trace w @ [ConsoleError msg]\<rparr>"

text \<open>One call of the client: it is recorded, counted, and rejected or not.\<close>

definition clientCall :: "event \<Rightarrow> world \<Rightarrow> error option \<times> world" where
  "clientCall ev w = (fault w (tick w), w\<lparr>tick := Suc (tick w), trace := trace w @ [ev]\<rparr>)"

text \<open>\<^verbatim>\<open>await mongoose.createConnection(connectionString, {...})\<close>: a new object, or a throw.\<close>

definition createConnection :: "string \<Rightarrow> world \<Rightarrow> (error + connection) \<times> world" where
  "createConnection connectionString w =
     (case clientCall (CreateConnection connectionString) w of
        (Some e, w') \<Rightarrow> (Inl e, w')
      | (None, w') \<Rightarrow>
          (Inr \<lparr>connId = nextConnId w', connString = connectionString\<rparr>,
           w'\<lparr>nextConnId := Suc (nextConnId w')\<rparr>))"

text \<open>\<^verbatim>\<open>await connection.close()\<close>.\<close>

definition closeConn :: "connection \<Rightarrow> world \<Rightarrow> error option \<times> world" where
  "closeConn c w = clientCall (Close c) w"

text \<open>
  \<^verbatim>\<open>String.prototype.toLowerCase\<close> on the characters of a host header (code points up to
  255): the upper-case letters A to Z and those of Latin-1 (0xC0 to 0xDE but for the
  multiplication sign 0xD7) have bit 5 clear, and their lower-case letter is the same
  code with bit 5 set; every other character is left as it is.
\<close>

definition toLowerChar :: "char \<Rightarrow> char" where
  "toLowerChar c =
     (let n = (of_char c :: nat)
      in if (65 \<le> n \<and> n \<le> 90) \<or> (192 \<le> n \<and> n \<le> 222 \<and> n \<noteq> 215)
         then (case c of Char b0 b1 b2 b3 b4 b5 b6 b7 \<Rightarrow> Char b0 b1 b2 b3 b4 True b6 b7)
         else c)"

definition toLowerCase :: "string \<Rightarrow> string" where
  "toLowerCase s = map toLowerChar s"

text \<open>
  \<^verbatim>\<open>await Tenant.findOne({ subdomain: s, isActive: true })\<close>, on the Tenant model of the
  master connection. The Tenant schema (the module with \<^verbatim>\<open>tenantSchema\<close>) declares
  \<^verbatim>\<open>subdomain\<close> with \<^verbatim>\<open>lowercase: true\<close>, and the model casts the filter through the
  schema, so the query compares the field with the filter's string in lower case; the
  active flag is compared as it is. The result is the first such document of the
  collection, or null (\<open>None\<close>), or a throw. Getting the model and running the query are
  one call of the client.
\<close>

definition findOne :: "string \<Rightarrow> world \<Rightarrow> (error + tenant option) \<times> world" where
  "findOne s w =
     (case clientCall (FindOne s) w of
        (Some e, w') \<Rightarrow> (Inl e, w')
      | (None, w') \<Rightarrow>
          (Inr (find (\<lambda>t. subdomain t = toLowerCase s \<and> isActive t) (tenants w')), w'))"

subsection \<open>The JavaScript Map of the cache\<close>

text \<open>
  A Map keeps its entries in insertion order, and \<^verbatim>\<open>set\<close> on a key it holds replaces the
  value in place; so it is a list of pairs.
\<close>

definition mapGet :: "('k \<times> 'v) list \<Rightarrow> 'k \<Rightarrow> 'v option" where
  "mapGet es k = map_of es k"

fun mapSet :: "('k \<times> 'v) list \<Rightarrow> 'k \<Rightarrow> 'v \<Rightarrow> ('k \<times> 'v) list" where
  "mapSet [] k v = [(k, v)]"
| "mapSet ((k', v') # es) k v =
     (if k' = k then (k, v) # es else (k', v') # mapSet es k v)"

definition mapDelete :: "('k \<times> 'v) list \<Rightarrow> 'k \<Rightarrow> ('k \<times> 'v) list" where
  "mapDelete es k = filter (\<lambda>kv. fst kv \<noteq> k) es"

subsection \<open>The registry\<close>

record DatabaseManager =
  connections :: "(jsval \<times> connection) list"
  masterConnection :: "connection option"

text \<open>The constructor: an empty Map and a null master slot.\<close>

definition newDatabaseManager :: DatabaseManager where
  "newDatabaseManager = \<lparr>connections = [], masterConnection = None\<rparr>"

text \<open>
  Every method takes the registry and the world and returns its result (\<open>Inl\<close>: it threw)
  with the registry and the world it leaves.
\<close>

definition initializeMasterDB ::
  "DatabaseManager \<Rightarrow> world \<Rightarrow> (error + connection) \<times> DatabaseManager \<times> world" where
  "initializeMasterDB m w =
     (let masterDbName = ''master_tenant_db'';
          connectionString = MONGODB_URI w @ masterDbName @ ''?'' @ MONGODB_OPTIONS w
      in case createConnection connectionString w of
           (Inr c, w') \<Rightarrow> (Inr c, m\<lparr>masterConnection := Some c\<rparr>, w')
         | (Inl e, w') \<Rightarrow> (Inl e, m, consoleError (errMessage e) w'))"

definition getTenantDB ::
  "jsval \<Rightarrow> DatabaseManager \<Rightarrow> world \<Rightarrow> (error + connection) \<times> DatabaseManager \<times> world" where
  "getTenantDB tenantId m w0 =
     (let w = w0\<lparr>trace := trace w0 @ [Enter_getTenantDB tenantId]\<rparr> in
      if \<not> truthy tenantId then (Inl (Error ''Tenant ID is required''), m, w)
      else
        (case mapGet (connections m) tenantId of
           Some c \<Rightarrow> (Inr c, m, w)
         | None \<Rightarrow>
             (let dbName = ''tenant_'' @ toStr tenantId;
                  connectionString = MONGODB_URI w @ dbName @ ''?'' @ MONGODB_OPTIONS w
              in case createConnection connectionString w of
                   (Inr c, w') \<Rightarrow>
                     (Inr c, m\<lparr>connections := mapSet (connections m) tenantId c\<rparr>, w')
                 | (Inl e, w') \<Rightarrow> (Inl e, m, consoleError (errMessage e) w'))))"

text \<open>The collections of a tenant database and their indexes (field, direction).\<close>

definition tenantCollections :: "(string \<times> (string \<times> int) list) list" where
  "tenantCollections =
     [(''users'', [(''email'', 1), (''role'', 1), (''isActive'', 1), (''createdAt'', - 1)]),
      (''requirements'', [(''createdBy'', 1), (''assignedTo'', 1), (''status'', 1),
         (''dueDate'', 1), (''createdAt'', - 1)]),
      (''jobdescriptions'', [(''requirementId'', 1), (''createdBy'', 1), (''isActive'', 1),
         (''shareableLink'', 1), (''createdAt'', - 1)]),
      (''applications'', [(''jobDescriptionId'', 1), (''candidateId'', 1), (''status'', 1),
         (''appliedAt'', - 1)]),
      (''candidates'', [(''email'', 1), (''phone'', 1), (''skills'', 1), (''experience'', 1),
         (''createdAt'', - 1)])]"

fun createIndexes ::
  "connection \<Rightarrow> string \<Rightarrow> (string \<times> int) list \<Rightarrow> world \<Rightarrow> error option \<times> world" where
  "createIndexes c name [] w = (None, w)"
| "createIndexes c name ((field, dir) # indexes) w =
     (case clientCall (CreateIndex c name field dir) w of
        (Some e, w') \<Rightarrow> (Some e, w')
      | (None, w') \<Rightarrow> createIndexes c name indexes w')"

fun collectionsLoop ::
  "connection \<Rightarrow> (string \<times> (string \<times> int) list) list \<Rightarrow> world \<Rightarrow> error option \<times> world" where
  "collectionsLoop c [] w = (None, w)"
| "collectionsLoop c ((name, indexes) # collections) w =
     (case createIndexes c name indexes w of
        (Some e, w') \<Rightarrow> (Some e, w')
      | (None, w') \<Rightarrow> collectionsLoop c collections w')"

definition initializeTenantCollections :: "connection \<Rightarrow> world \<Rightarrow> (error + unit) \<times> world" where
  "initializeTenantCollections c w =
     (case collectionsLoop c tenantCollections w of
        (Some e, w') \<Rightarrow> (Inl e, consoleError (errMessage e) w')
      | (None, w') \<Rightarrow> (Inr (), w'))"

definition createTenantDB ::
  "jsval \<Rightarrow> DatabaseManager \<Rightarrow> world \<Rightarrow> (error + connection) \<times> DatabaseManager \<times> world" where
  "createTenantDB tenantId m w =
     (case getTenantDB tenantId m w of
        (Inl e, m', w') \<Rightarrow> (Inl e, m', consoleError (errMessage e) w')
      | (Inr c, m', w') \<Rightarrow>
          (case initializeTenantCollections c w' of
             (Inl e, w'') \<Rightarrow> (Inl e, m', consoleError (errMessage e) w'')
           | (Inr u, w'') \<Rightarrow> (Inr c, m', w'')))"

definition closeTenantConnection ::
  "jsval \<Rightarrow> DatabaseManager \<Rightarrow> world \<Rightarrow> (error + unit) \<times> DatabaseManager \<times> world" where
  "closeTenantConnection tenantId m w =
     (case mapGet (connections m) tenantId of
        Some c \<Rightarrow>
          (case closeConn c w of
             (Some e, w') \<Rightarrow> (Inl e, m, w')
           | (None, w') \<Rightarrow> (Inr (), m\<lparr>connections := mapDelete (connections m) tenantId\<rparr>, w'))
      | None \<Rightarrow> (Inr (), m, w))"

text \<open>
  The loop of \<^verbatim>\<open>closeAllConnections\<close> over the entries of the Map, in insertion order;
  a close that throws leaves the loop.
\<close>

fun closeLoop :: "(jsval \<times> connection) list \<Rightarrow> world \<Rightarrow> error option \<times> world" where
  "closeLoop [] w = (None, w)"
| "closeLoop ((tenantId, c) # entries) w =
     (case closeConn c w of
        (Some e, w') \<Rightarrow> (Some e, w')
      | (None, w') \<Rightarrow> closeLoop entries w')"

text \<open>
  One try block holds the loop, the clearing of the Map and the closing of the master
  connection; its catch logs the message and the method returns normally.
\<close>

definition closeAllConnections ::
  "DatabaseManager \<Rightarrow> world \<Rightarrow> (error + unit) \<times> DatabaseManager \<times> world" where
  "closeAllConnections m w =
     (case closeLoop (connections m) w of
        (Some e, w1) \<Rightarrow> (Inr (), m, consoleError (errMessage e) w1)
      | (None, w1) \<Rightarrow>
          (let m1 = m\<lparr>connections := []\<rparr> in
           case masterConnection m1 of
             None \<Rightarrow> (Inr (), m1, w1)
           | Some c \<Rightarrow>
               (case closeConn c w1 of
                  (Some e, w2) \<Rightarrow> (Inr (), m1, consoleError (errMessage e) w2)
                | (None, w2) \<Rightarrow> (Inr (), m1, w2))))"

definition getMasterConnection :: "DatabaseManager \<Rightarrow> error + connection" where
  "getMasterConnection m =
     (case masterConnection m of
        None \<Rightarrow> Inl (Error ''Master database not initialized'')
      | Some c \<Rightarrow> Inr c)"


text \<open>
  A client of the registry is a sequence of method calls (the binder and the controllers
  read the master slot and call these methods; none assigns a field). \<open>runCalls\<close> runs
  such a sequence; beside the registry and the world it carries the handle that the
  latest successful \<^verbatim>\<open>initializeMasterDB\<close> of the sequence returned, if there was one.
\<close>

datatype call =
    InitializeMasterDB
  | GetTenantDB jsval
  | CreateTenantDB jsval
  | CloseTenantConnection jsval
  | CloseAllConnections
  | GetMasterConnection

fun invoke ::
  "call \<Rightarrow> DatabaseManager \<times> world \<times> connection option
     \<Rightarrow> DatabaseManager \<times> world \<times> connection option" where
  "invoke InitializeMasterDB (m, w, g) =
     (case initializeMasterDB m w of
        (Inr c, m', w') \<Rightarrow> (m', w', Some c)
      | (Inl e, m', w') \<Rightarrow> (m', w', g))"
| "invoke (GetTenantDB v) (m, w, g) =
     (case getTenantDB v m w of (r, m', w') \<Rightarrow> (m', w', g))"
| "invoke (CreateTenantDB v) (m, w, g) =
     (case createTenantDB v m w of (r, m', w') \<Rightarrow> (m', w', g))"
| "invoke (CloseTenantConnection v) (m, w, g) =
     (case closeTenantConnection v m w of (r, m', w') \<Rightarrow> (m', w', g))"
| "invoke CloseAllConnections (m, w, g) =
     (case closeAllConnections m w of (r, m', w') \<Rightarrow> (m', w', g))"
| "invoke GetMasterConnection (m, w, g) = (m, w, g)"

fun runCalls ::
  "call list \<Rightarrow> DatabaseManager \<times> world \<times> connection option
     \<Rightarrow> DatabaseManager \<times> world \<times> connection option" where
  "runCalls [] s = s"
| "runCalls (c # cs) s = runCalls cs (invoke c s)"


section \<open>Request Context Binder (src/middleware/tenant.js, tenantMiddleware)\<close>

text \<open>What the binder reads of a request.\<close>

record request =
  getHost :: "string option"
  headersHost :: "string option"
  path :: string

text \<open>\<^verbatim>\<open>req.get('host') || req.headers.host\<close>.\<close>

definition requestHost :: "request \<Rightarrow> string option" where
  "requestHost req =
     (case getHost req of
        Some h \<Rightarrow> if h \<noteq> [] then Some h else headersHost req
      | None \<Rightarrow> headersHost req)"

definition startsWith :: "string \<Rightarrow> string \<Rightarrow> bool" where
  "startsWith s p = (take (length p) s = p)"

text \<open>What the binder attaches to the request before it calls \<^verbatim>\<open>next()\<close>.\<close>

record binding =
  reqDb :: connection
  reqTenant :: "tenant option"
  reqTenantId :: "string option"

record body =
  success :: bool
  message :: string
  code :: string

text \<open>
  The binder ends a request either by calling \<^verbatim>\<open>next()\<close> with the request bound, or by
  a response with a status and a JSON body.
\<close>

datatype outcome = Next binding | Responded nat body

definition tenantNotFound :: outcome where
  "tenantNotFound =
     Responded 404 \<lparr>success = False, message = ''Tenant not found or inactive'',
       code = ''TENANT_NOT_FOUND''\<rparr>"

definition tenantResolutionError :: outcome where
  "tenantResolutionError =
     Responded 500 \<lparr>success = False, message = ''Internal server error in tenant resolution'',
       code = ''TENANT_RESOLUTION_ERROR''\<rparr>"

text \<open>\<^verbatim>\<open>if (!dbManager.masterConnection) { await dbManager.initializeMasterDB(); }\<close>\<close>

definition ensureMaster ::
  "DatabaseManager \<Rightarrow> world \<Rightarrow> error option \<times> DatabaseManager \<times> world" where
  "ensureMaster m w =
     (if masterConnection m = None then
        (case initializeMasterDB m w of
           (Inl e, m', w') \<Rightarrow> (Some e, m', w')
         | (Inr c, m', w') \<Rightarrow> (None, m', w'))
      else (None, m, w))"

text \<open>The body of the try block; \<open>Inl\<close> is an exception that reaches the catch.\<close>

definition tenantTry ::
  "request \<Rightarrow> DatabaseManager \<Rightarrow> world \<Rightarrow> (error + outcome) \<times> DatabaseManager \<times> world" where
  "tenantTry req m w =
     (let host = requestHost req;
          tenantSubdomain = extractTenantFromHost host
      in case ensureMaster m w of
           (Some e, m1, w1) \<Rightarrow> (Inl e, m1, w1)
         | (None, m1, w1) \<Rightarrow>
             if tenantSubdomain = None \<or> tenantSubdomain = Some []
                \<or> startsWith (path req) ''/api/super-admin''
             then
               (case getMasterConnection m1 of
                  Inl e \<Rightarrow> (Inl e, m1, w1)
                | Inr c \<Rightarrow>
                    (Inr (Next \<lparr>reqDb = c, reqTenant = None, reqTenantId = None\<rparr>), m1, w1))
             else
               (case getMasterConnection m1 of
                  Inl e \<Rightarrow> (Inl e, m1, w1)
                | Inr mc \<Rightarrow>
                    (case findOne (the tenantSubdomain) w1 of
                       (Inl e, w2) \<Rightarrow> (Inl e, m1, w2)
                     | (Inr None, w2) \<Rightarrow> (Inr tenantNotFound, m1, w2)
                     | (Inr (Some t), w2) \<Rightarrow>
                         (case getTenantDB (JStr (subdomain t)) m1 w2 of
                            (Inl e, m3, w3) \<Rightarrow> (Inl e, m3, w3)
                          | (Inr tenantDB, m3, w3) \<Rightarrow>
                              (Inr (Next \<lparr>reqDb = tenantDB, reqTenant = Some t,
                                 reqTenantId = Some (subdomain t)\<rparr>), m3, w3)))))"

text \<open>The whole middleware: the catch logs the error and answers with status 500.\<close>

definition tenantMiddleware ::
  "request \<Rightarrow> DatabaseManager \<Rightarrow> world \<Rightarrow> (error + outcome) \<times> DatabaseManager \<times> world" where
  "tenantMiddleware req m w =
     (case tenantTry req m w of
        (Inl e, m', w') \<Rightarrow> (Inr tenantResolutionError, m', consoleError (errMessage e) w')
      | (Inr out, m', w') \<Rightarrow> (Inr out, m', w'))"

text \<open>The events of a trace that are lookups of a tenant, and entries into getTenantDB.\<close>

fun isFindOne :: "event \<Rightarrow> bool" where
  "isFindOne (FindOne s) = True"
| "isFindOne ev = False"

fun isEnter_getTenantDB :: "event \<Rightarrow> bool" where
  "isEnter_getTenantDB (Enter_getTenantDB v) = True"
| "isEnter_getTenantDB ev = False"

fun isCreateConnection :: "event \<Rightarrow> bool" where
  "isCreateConnection (CreateConnection s) = True"
| "isCreateConnection ev = False"

text \<open>
  The master handle is there for a request: the slot is filled, or the connection that
  \<^verbatim>\<open>initializeMasterDB\<close> opens (the next call of the client) is not rejected.
\<close>

definition masterReady :: "DatabaseManager \<Rightarrow> world \<Rightarrow> bool" where
  "masterReady m w = (masterConnection m \<noteq> None \<or> fault w (tick w) = None)"

text \<open>The number of the client call that is the binder's lookup, when it makes one.\<close>

definition lookupTick :: "DatabaseManager \<Rightarrow> world \<Rightarrow> nat" where
  "lookupTick m w = (if masterConnection m = None then Suc (tick w) else tick w)"



text \<open>\<open>quiet w k\<close>: the next \<open>k\<close> calls of the client are not rejected.\<close>

fun noFaults :: "(nat \<Rightarrow> error option) \<Rightarrow> nat \<Rightarrow> nat \<Rightarrow> bool" where
  "noFaults f t 0 = True"
| "noFaults f t (Suc k) = (f t = None \<and> noFaults f (Suc t) k)"

definition quiet :: "world \<Rightarrow> nat \<Rightarrow> bool" where
  "quiet w k = noFaults (fault w) (tick w) k"

text \<open>The close calls that closing all of a registry's handles consists of, in order.\<close>

definition closeEvents :: "DatabaseManager \<Rightarrow> event list" where
  "closeEvents m =
     map (\<lambda>kv. Close (snd kv)) (connections m) @
     (case masterConnection m of None \<Rightarrow> [] | Some c \<Rightarrow> [Close c])"

text \<open>The calls that take handles out of the cache.\<close>

fun closesHandles :: "call \<Rightarrow> bool" where
  "closesHandles (CloseTenantConnection v) = True"
| "closesHandles CloseAllConnections = True"
| "closesHandles c = False"

subsection \<open>Concrete inputs\<close>

definition world0 :: world where
  "world0 =
     \<lparr>MONGODB_URI = ''mongodb://db/'', MONGODB_OPTIONS = ''w=1'',
      tenants = [\<lparr>subdomain = ''acme'', isActive = True, companyName = ''Acme''\<rparr>,
                 \<lparr>subdomain = ''oldco'', isActive = False, companyName = ''Old Co''\<rparr>],
      fault = (\<lambda>n. None), tick = 0, nextConnId = 0, trace = []\<rparr>"

definition conn0 :: connection where
  "conn0 = \<lparr>connId = 0, connString = ''mongodb://db/master_tenant_db?w=1''\<rparr>"

definition conn1 :: connection where
  "conn1 = \<lparr>connId = 1, connString = ''mongodb://db/tenant_acme?w=1''\<rparr>"

definition conn2 :: connection where
  "conn2 = \<lparr>connId = 2, connString = ''mongodb://db/tenant_beta?w=1''\<rparr>"

definition manager2 :: DatabaseManager where
  "manager2 =
     \<lparr>connections = [(JStr ''acme'', conn1), (JStr ''beta'', conn2)],
      masterConnection = Some conn0\<rparr>"

definition worldF :: world where
  "worldF = world0\<lparr>fault := (\<lambda>n. if n = 0 then Some (Error ''socket hang up'') else None)\<rparr>"

definition reqAdmin :: request where
  "reqAdmin = \<lparr>getHost = Some ''ghost.myapp.com'', headersHost = None,
                path = ''/api/super-admin/tenants''\<rparr>"

definition reqApex :: request where
  "reqApex = \<lparr>getHost = None, headersHost = Some ''localhost:5000'', path = ''/api/jobs''\<rparr>"


definition worldFaultAt :: "nat \<Rightarrow> world" where
  "worldFaultAt k =
     world0\<lparr>fault := (\<lambda>n. if n = k then Some (Error ''socket hang up'') else None)\<rparr>"

definition reqUpper :: request where
  "reqUpper = \<lparr>getHost = Some ''ACME.myapp.com'', headersHost = None, path = ''/api/jobs''\<rparr>"


section \<open>Properties of the Tenant Resolver\<close>

lemma splitColonHead_id: "CHR '':'' \<notin> set s \<Longrightarrow> splitColonHead s = s"
  by (auto simp add: splitColonHead_def)

lemma splitColonHead_port: "CHR '':'' \<notin> set s \<Longrightarrow> splitColonHead (s @ CHR '':'' # port) = s"
  by (auto simp add: splitColonHead_def takeWhile_tail)

lemma splitColonHead_subset: "set (splitColonHead h) \<subseteq> set h"
  unfolding splitColonHead_def by (auto dest: set_takeWhileD)

lemma takeWhile_label: "CHR ''.'' \<notin> set l \<Longrightarrow> takeWhile (\<lambda>c. c \<noteq> CHR ''.'') (l @ CHR ''.'' # r) = l"
  by (induction l) auto

lemma dropWhile_label: "CHR ''.'' \<notin> set l \<Longrightarrow> dropWhile (\<lambda>c. c \<noteq> CHR ''.'') (l @ CHR ''.'' # r) = CHR ''.'' # r"
  by (induction l) auto

lemma regexMatch_label:
  "l \<noteq> [] \<Longrightarrow> CHR ''.'' \<notin> set l \<Longrightarrow>
   regexMatch d (l @ CHR ''.'' # d') = (if d' = d then Some l else None)"
  by (simp add: regexMatch_def takeWhile_label dropWhile_label Let_def)

lemma regexMatch_SomeD:
  "regexMatch d s = Some l \<Longrightarrow> s = l @ CHR ''.'' # d \<and> l \<noteq> [] \<and> CHR ''.'' \<notin> set l"
proof -
  assume a: "regexMatch d s = Some l"
  have tw: "l = takeWhile (\<lambda>c. c \<noteq> CHR ''.'') s" and ne: "l \<noteq> []"
    and dw: "dropWhile (\<lambda>c. c \<noteq> CHR ''.'') s = CHR ''.'' # d"
    using a by (auto simp: regexMatch_def Let_def split: if_splits)
  have "s = takeWhile (\<lambda>c. c \<noteq> CHR ''.'') s @ dropWhile (\<lambda>c. c \<noteq> CHR ''.'') s"
    by simp
  then have "s = l @ CHR ''.'' # d" using tw dw by simp
  moreover have "CHR ''.'' \<notin> set l" using tw by (auto dest: set_takeWhileD)
  ultimately show ?thesis using ne by simp
qed

lemma extract_label:
  assumes "l \<noteq> []" "CHR ''.'' \<notin> set l" "l \<noteq> ''www''"
    and "d \<in> {''localhost'', ''lvh.me'', ''myapp.com''}"
    and "splitColonHead h = l @ CHR ''.'' # d"
  shows "extractTenantFromHost (Some h) = Some l"
proof -
  have "h \<noteq> []" using assms(5) by (auto simp: splitColonHead_def)
  then show ?thesis
    using assms
    by (auto simp: extractTenantFromHost_def Let_def devPatterns_def prodPattern_def regexMatch_label)
qed

lemma extract_SomeD:
  assumes "extractTenantFromHost host = Some l"
  shows "\<exists>h d. host = Some h \<and> d \<in> {''localhost'', ''lvh.me'', ''myapp.com''} \<and>
           splitColonHead h = l @ CHR ''.'' # d \<and> l \<noteq> [] \<and> CHR ''.'' \<notin> set l \<and> l \<noteq> ''www''"
  using assms
  by (auto simp: extractTenantFromHost_def Let_def devPatterns_def prodPattern_def
      split: option.splits if_splits dest!: regexMatch_SomeD)

lemma extract_bare_ip:
  assumes "isBareIp h"
  shows "extractTenantFromHost (Some h) = None"
proof (cases "extractTenantFromHost (Some h)")
  case None
  then show ?thesis .
next
  case (Some l)
  then obtain d where d: "d \<in> {''localhost'', ''lvh.me'', ''myapp.com''}"
    and sp: "splitColonHead h = l @ CHR ''.'' # d"
    using extract_SomeD by blast
  have "set d \<subseteq> set h"
    using splitColonHead_subset[of h] sp by auto
  moreover have "CHR ''l'' \<in> set d \<or> CHR ''m'' \<in> set d"
    using d by auto
  ultimately have "CHR ''l'' \<in> set h \<or> CHR ''m'' \<in> set h" by auto
  moreover have "\<not> ipChar (CHR ''l'')" "\<not> ipChar (CHR ''m'')"
    by (simp_all add: ipChar_def)
  ultimately show ?thesis
    using assms by (auto simp: isBareIp_def list_all_iff)
qed

lemma extract_reserved:
  assumes "w \<in> {''www.localhost'', ''www.lvh.me'', ''www.myapp.com'', ''localhost''}"
  shows "extractTenantFromHost (Some w) = None"
    and "extractTenantFromHost (Some (w @ '':'' @ port)) = None"
  using assms
  by (auto simp: extractTenantFromHost_def Let_def devPatterns_def prodPattern_def
      regexMatch_def splitColonHead_def)

text \<open>
  Claim C1. For a host \<open>l.localhost\<close>, \<open>l.lvh.me\<close> or \<open>l.myapp.com\<close>, with or without a
  \<open>:port\<close> suffix, whose label \<open>l\<close> is not www, the resolver returns exactly \<open>l\<close>. For
  the www hosts and bare localhost (with or without a port), for every bare IP address,
  for the empty string and for null it returns "no tenant".
\<close>

theorem tenant_resolver_hosts:
  "(isLabel l \<and> l \<noteq> ''www'' \<and> d \<in> {''localhost'', ''lvh.me'', ''myapp.com''} \<longrightarrow>
      extractTenantFromHost (Some (l @ ''.'' @ d)) = Some l \<and>
      extractTenantFromHost (Some (l @ ''.'' @ d @ '':'' @ port)) = Some l) \<and>
   (w \<in> {''www.localhost'', ''www.lvh.me'', ''www.myapp.com'', ''localhost''} \<longrightarrow>
      extractTenantFromHost (Some w) = None \<and>
      extractTenantFromHost (Some (w @ '':'' @ port)) = None) \<and>
   (isBareIp h \<longrightarrow> extractTenantFromHost (Some h) = None) \<and>
   extractTenantFromHost (Some '''') = None \<and>
   extractTenantFromHost None = None"
proof (intro conjI impI)
  assume a: "isLabel l \<and> l \<noteq> ''www'' \<and> d \<in> {''localhost'', ''lvh.me'', ''myapp.com''}"
  then have nc: "CHR '':'' \<notin> set (l @ CHR ''.'' # d)"
    by (auto simp: isLabel_def)
  show "extractTenantFromHost (Some (l @ ''.'' @ d)) = Some l"
    using a splitColonHead_id[OF nc] by (intro extract_label) (auto simp: isLabel_def)
  have "splitColonHead ((l @ CHR ''.'' # d) @ CHR '':'' # port) = l @ CHR ''.'' # d"
    using nc by (rule splitColonHead_port)
  then show "extractTenantFromHost (Some (l @ ''.'' @ d @ '':'' @ port)) = Some l"
    using a by (intro extract_label) (auto simp: isLabel_def)
next
  assume "w \<in> {''www.localhost'', ''www.lvh.me'', ''www.myapp.com'', ''localhost''}"
  then show "extractTenantFromHost (Some w) = None"
    and "extractTenantFromHost (Some (w @ '':'' @ port)) = None"
    by (rule extract_reserved)+
next
  assume "isBareIp h"
  then show "extractTenantFromHost (Some h) = None" by (rule extract_bare_ip)
next
  show "extractTenantFromHost (Some '''') = None" by (simp add: extractTenantFromHost_def)
  show "extractTenantFromHost None = None" by (simp add: extractTenantFromHost_def)
qed

theorem tenant_resolver_hosts_witness:
  "isLabel ''acme'' \<and> ''acme'' \<noteq> ''www'' \<and>
   extractTenantFromHost (Some ''acme.lvh.me'') = Some ''acme'' \<and>
   extractTenantFromHost (Some ''acme.lvh.me:3000'') = Some ''acme'' \<and>
   extractTenantFromHost (Some ''www.myapp.com'') = None \<and>
   extractTenantFromHost (Some ''www.myapp.com:8080'') = None \<and>
   isBareIp ''127.0.0.1'' \<and> extractTenantFromHost (Some ''127.0.0.1'') = None"
  using tenant_resolver_hosts [of "''acme''" "''lvh.me''" "''3000''" "''www.myapp.com''" "''127.0.0.1''"]
    tenant_resolver_hosts [of "''acme''" "''lvh.me''" "''8080''" "''www.myapp.com''" "''127.0.0.1''"]
  by (simp add: isLabel_def isBareIp_def ipChar_def)

text \<open>
  Claim C9, as stated, fails: the resolver returns the label \<open>AB\<close> of \<open>AB.localhost\<close>, which
  has two characters and is in upper case.
\<close>

theorem tenant_resolver_slug_counterexample:
  "extractTenantFromHost (Some ''AB.localhost'') = Some ''AB'' \<and> \<not> isSlug ''AB''"
  by (simp add: extractTenantFromHost_def Let_def devPatterns_def regexMatch_def
      splitColonHead_def isSlug_def slugChar_def)

text \<open>
  Claim C9, amended. Every identifier the resolver returns is a label (non-empty, with
  neither a dot nor a colon) other than www, and it is the leftmost label of the host:
  all of the host up to its first dot, which is there. What follows that dot, up to the
  port if there is one, is one of the three domains. The resolver checks neither the
  case, nor the alphabet, nor the length of the label.
\<close>

theorem tenant_resolver_result_shape:
  "extractTenantFromHost host = Some l \<Longrightarrow>
     isLabel l \<and> l \<noteq> ''www'' \<and>
     (\<exists>h d rest. host = Some h \<and> h = l @ ''.'' @ d @ rest \<and>
        takeWhile (\<lambda>c. c \<noteq> CHR ''.'') h = l \<and>
        d \<in> {''localhost'', ''lvh.me'', ''myapp.com''} \<and>
        (rest = [] \<or> hd rest = CHR '':''))"
proof -
  assume "extractTenantFromHost host = Some l"
  then obtain h d where h: "host = Some h"
    and d: "d \<in> {''localhost'', ''lvh.me'', ''myapp.com''}"
    and sp: "splitColonHead h = l @ CHR ''.'' # d"
    and l: "l \<noteq> []" "CHR ''.'' \<notin> set l" "l \<noteq> ''www''"
    using extract_SomeD by blast
  define rest where "rest = dropWhile (\<lambda>c. c \<noteq> CHR '':'') h"
  have "set l \<subseteq> set (takeWhile (\<lambda>c. c \<noteq> CHR '':'') h)"
    using sp by (auto simp: splitColonHead_def)
  then have nc: "CHR '':'' \<notin> set l" by (auto dest: set_takeWhileD)
  have hh: "h = (l @ CHR ''.'' # d) @ rest"
    using sp takeWhile_dropWhile_id[of "\<lambda>c. c \<noteq> CHR '':''" h]
    by (simp add: splitColonHead_def rest_def)
  then have "takeWhile (\<lambda>c. c \<noteq> CHR ''.'') h =
             takeWhile (\<lambda>c. c \<noteq> CHR ''.'') (l @ CHR ''.'' # (d @ rest))"
    by simp
  then have tw: "takeWhile (\<lambda>c. c \<noteq> CHR ''.'') h = l"
    using takeWhile_label[OF l(2), of "d @ rest"] by simp
  have r: "rest = [] \<or> hd rest = CHR '':''"
    unfolding rest_def using hd_dropWhile[of "\<lambda>c. c \<noteq> CHR '':''" h] by auto
  have "h = l @ ''.'' @ d @ rest" using hh by simp
  then show ?thesis using h l nc tw d r by (auto simp: isLabel_def)
qed

theorem tenant_resolver_result_shape_witness:
  "extractTenantFromHost (Some ''AB.localhost:3000'') = Some ''AB'' \<and> isLabel ''AB'' \<and>
   ''AB'' \<noteq> ''www'' \<and> takeWhile (\<lambda>c. c \<noteq> CHR ''.'') ''AB.localhost:3000'' = ''AB''"
proof -
  have e: "extractTenantFromHost (Some ''AB.localhost:3000'') = Some ''AB''"
    by (simp add: extractTenantFromHost_def Let_def devPatterns_def regexMatch_def
        splitColonHead_def)
  from tenant_resolver_result_shape [OF e] e show ?thesis by auto
qed


section \<open>Properties of the Connection Pool Registry\<close>

lemma mapSet_fresh: "map_of es k = None \<Longrightarrow> mapSet es k v = es @ [(k, v)]"
  by (induction es) (auto split: if_splits)

text \<open>
  Claim C10. For a falsy identifier (null, undefined or the empty string) getTenantDB
  throws the error "Tenant ID is required". The registry, and with it the cache, is the
  one it was called with, and the world is unchanged but for the mark of the call: no
  call of the client is made, so no connection is created.
\<close>

theorem getTenantDB_falsy:
  assumes "tenantId \<in> {JNull, JUndefined, JStr ''''}"
    and "getTenantDB tenantId m w = (r, m', w')"
  shows "r = Inl (Error ''Tenant ID is required'') \<and> m' = m \<and>
         w' = w\<lparr>trace := trace w @ [Enter_getTenantDB tenantId]\<rparr> \<and>
         tick w' = tick w \<and> nextConnId w' = nextConnId w \<and>
         filter isCreateConnection (trace w') = filter isCreateConnection (trace w)"
proof -
  have "\<not> truthy tenantId" using assms(1) by (auto simp: truthy_def)
  then have "getTenantDB tenantId m w =
      (Inl (Error ''Tenant ID is required''), m,
       w\<lparr>trace := trace w @ [Enter_getTenantDB tenantId]\<rparr>)"
    by (simp add: getTenantDB_def Let_def)
  then have "r = Inl (Error ''Tenant ID is required'')" "m' = m"
    and w': "w' = w\<lparr>trace := trace w @ [Enter_getTenantDB tenantId]\<rparr>"
    using assms(2) by simp_all
  moreover have "tick w' = tick w" "nextConnId w' = nextConnId w"
    "filter isCreateConnection (trace w') = filter isCreateConnection (trace w)"
    using w' by simp_all
  ultimately show ?thesis by simp
qed

theorem getTenantDB_falsy_witness:
  "getTenantDB JNull manager2 world0 =
     (Inl (Error ''Tenant ID is required''), manager2,
      world0\<lparr>trace := [Enter_getTenantDB JNull]\<rparr>) \<and>
   getTenantDB JUndefined manager2 world0 =
     (Inl (Error ''Tenant ID is required''), manager2,
      world0\<lparr>trace := [Enter_getTenantDB JUndefined]\<rparr>) \<and>
   getTenantDB (JStr '''') manager2 world0 =
     (Inl (Error ''Tenant ID is required''), manager2,
      world0\<lparr>trace := [Enter_getTenantDB (JStr '''')]\<rparr>)"
proof -
  have t: "trace world0 = []" by (simp add: world0_def)
  have c: "getTenantDB v manager2 world0 =
      (fst (getTenantDB v manager2 world0), fst (snd (getTenantDB v manager2 world0)),
       snd (snd (getTenantDB v manager2 world0)))" for v
    by (simp only: prod.collapse)
  have "getTenantDB v manager2 world0 =
     (Inl (Error ''Tenant ID is required''), manager2,
      world0\<lparr>trace := [Enter_getTenantDB v]\<rparr>)"
    if "v \<in> {JNull, JUndefined, JStr ''''}" for v
  proof -
    note f = getTenantDB_falsy [OF that c [of v]]
    have "fst (getTenantDB v manager2 world0) = Inl (Error ''Tenant ID is required'')"
      and "fst (snd (getTenantDB v manager2 world0)) = manager2"
      and "snd (snd (getTenantDB v manager2 world0)) = world0\<lparr>trace := [Enter_getTenantDB v]\<rparr>"
      using f t by simp_all
    then show ?thesis by (simp add: prod_eq_iff)
  qed
  then show ?thesis by simp
qed

lemma getTenantDB_hit:
  "truthy ident \<Longrightarrow> mapGet (connections m) ident = Some h \<Longrightarrow>
     getTenantDB ident m w = (Inr h, m, w\<lparr>trace := trace w @ [Enter_getTenantDB ident]\<rparr>)"
  by (simp add: getTenantDB_def Let_def)

lemma getTenantDB_miss_ok:
  assumes "truthy ident" "mapGet (connections m) ident = None"
    and "getTenantDB ident m w = (Inr h, m1, w1)"
  shows "h = \<lparr>connId = nextConnId w,
               connString = MONGODB_URI w @ ''tenant_'' @ toStr ident @ ''?'' @ MONGODB_OPTIONS w\<rparr>"
    and "m1 = m\<lparr>connections := connections m @ [(ident, h)]\<rparr>"
    and "w1 = w\<lparr>tick := Suc (tick w), nextConnId := Suc (nextConnId w),
            trace := trace w @ [Enter_getTenantDB ident,
              CreateConnection (MONGODB_URI w @ ''tenant_'' @ toStr ident @ ''?'' @ MONGODB_OPTIONS w)]\<rparr>"
  using assms
  by (auto simp: getTenantDB_def Let_def createConnection_def clientCall_def mapSet_fresh
      mapGet_def consoleError_def split: option.splits prod.splits sum.splits)

lemma world0_first_call:
  "getTenantDB (JStr ''acme'') newDatabaseManager (world0\<lparr>nextConnId := 1\<rparr>) =
     (Inr conn1, \<lparr>connections = [(JStr ''acme'', conn1)], masterConnection = None\<rparr>,
      world0\<lparr>tick := 1, nextConnId := 2,
        trace := [Enter_getTenantDB (JStr ''acme''),
                  CreateConnection ''mongodb://db/tenant_acme?w=1'']\<rparr>)"
  by (simp add: getTenantDB_def Let_def truthy_def mapGet_def newDatabaseManager_def world0_def
      createConnection_def clientCall_def toStr_def conn1_def)

lemma closeLoop_quiet:
  "noFaults (fault w) (tick w) (length es) \<Longrightarrow>
     closeLoop es w =
       (None, w\<lparr>tick := tick w + length es, trace := trace w @ map (\<lambda>kv. Close (snd kv)) es\<rparr>)"
proof (induction es arbitrary: w)
  case Nil
  then show ?case by simp
next
  case (Cons kv es)
  obtain k c where kv: "kv = (k, c)" by (cases kv)
  let ?w' = "w\<lparr>tick := Suc (tick w), trace := trace w @ [Close c]\<rparr>"
  have f: "fault w (tick w) = None" and q: "noFaults (fault ?w') (tick ?w') (length es)"
    using Cons.prems by simp_all
  show ?case
    using Cons.IH[OF q] f by (simp add: kv closeConn_def clientCall_def)
qed

lemma closeLoop_fail:
  "k < length es \<Longrightarrow> noFaults (fault w) (tick w) k \<Longrightarrow> fault w (tick w + k) = Some e \<Longrightarrow>
     closeLoop es w =
       (Some e, w\<lparr>tick := tick w + Suc k,
                  trace := trace w @ map (\<lambda>kv. Close (snd kv)) (take (Suc k) es)\<rparr>)"
proof (induction es arbitrary: w k)
  case Nil
  then show ?case by simp
next
  case (Cons kv es)
  obtain i c where kv: "kv = (i, c)" by (cases kv)
  let ?w' = "w\<lparr>tick := Suc (tick w), trace := trace w @ [Close c]\<rparr>"
  show ?case
  proof (cases k)
    case 0
    then show ?thesis using Cons.prems by (simp add: kv closeConn_def clientCall_def)
  next
    case (Suc j)
    have f: "fault w (tick w) = None" and q: "noFaults (fault ?w') (tick ?w') j"
      and e: "fault ?w' (tick ?w' + j) = Some e" and j: "j < length es"
      using Cons.prems Suc by simp_all
    show ?thesis
      using Cons.IH[OF j q e] f by (simp add: kv Suc closeConn_def clientCall_def)
  qed
qed

lemma closeAll_returns: "fst (closeAllConnections m w) = Inr ()"
  by (simp add: closeAllConnections_def Let_def split: prod.splits option.splits)

lemma closeAll_master: "masterConnection (fst (snd (closeAllConnections m w))) = masterConnection m"
  by (simp add: closeAllConnections_def Let_def split: prod.splits option.splits)

lemma noFaults_iff: "noFaults f t k = (\<forall>n<k. f (t + n) = None)"
proof (induction k arbitrary: t)
  case 0
  then show ?case by simp
next
  case (Suc k)
  show ?case
  proof
    assume a: "noFaults f t (Suc k)"
    show "\<forall>n<Suc k. f (t + n) = None"
    proof (intro allI impI)
      fix n assume "n < Suc k"
      then show "f (t + n) = None"
        using a Suc.IH[of "Suc t"] by (cases n) auto
    qed
  next
    assume a: "\<forall>n<Suc k. f (t + n) = None"
    then have "f t = None" by (metis add.right_neutral zero_less_Suc)
    moreover have "\<forall>n<k. f (Suc t + n) = None"
      using a by (metis Suc_less_eq add_Suc_shift)
    ultimately show "noFaults f t (Suc k)" using Suc.IH[of "Suc t"] by simp
  qed
qed

lemma closeAll_quiet:
  assumes "quiet w (length (closeEvents m))"
  shows "closeAllConnections m w =
           (Inr (), m\<lparr>connections := []\<rparr>,
            w\<lparr>tick := tick w + length (closeEvents m), trace := trace w @ closeEvents m\<rparr>)"
proof -
  have q1: "noFaults (fault w) (tick w) (length (connections m))"
    using assms by (simp add: quiet_def closeEvents_def noFaults_iff split: option.splits)
  note l = closeLoop_quiet[OF q1]
  show ?thesis
  proof (cases "masterConnection m")
    case None
    then show ?thesis using l by (simp add: closeAllConnections_def Let_def closeEvents_def)
  next
    case (Some c)
    then have "fault w (tick w + length (connections m)) = None"
      using assms by (simp add: quiet_def closeEvents_def noFaults_iff)
    then show ?thesis using l Some
      by (simp add: closeAllConnections_def Let_def closeEvents_def closeConn_def clientCall_def)
  qed
qed

text \<open>
  Claim C5, amended. closeAllConnections never throws to its caller. When the close
  number \<open>k\<close> of the teardown (tenant handles in cache order, then the master handle) is
  the first that is rejected, the handles before it have been closed, the error message
  is logged with console.error, and the method returns normally; no later handle is
  closed. If the rejected close is a tenant handle's, the cache is left as it was and
  the master handle is not closed; if it is the master handle's, the cache is empty.
\<close>

theorem closeAll_first_failure:
  assumes k: "k < length (closeEvents m)" and q: "quiet w k"
    and e: "fault w (tick w + k) = Some e"
  shows "closeAllConnections m w =
           (Inr (), (if k < length (connections m) then m else m\<lparr>connections := []\<rparr>),
            w\<lparr>tick := tick w + Suc k,
              trace := trace w @ take (Suc k) (closeEvents m) @ [ConsoleError (errMessage e)]\<rparr>)"
proof (cases "k < length (connections m)")
  case True
  have "noFaults (fault w) (tick w) k" using q by (simp add: quiet_def)
  from closeLoop_fail[OF True this e] True show ?thesis
    by (simp add: closeAllConnections_def closeEvents_def consoleError_def take_map)
next
  case False
  then obtain c where c: "masterConnection m = Some c" and kl: "k = length (connections m)"
    using k by (auto simp: closeEvents_def split: option.splits)
  have "noFaults (fault w) (tick w) (length (connections m))"
    using q kl by (simp add: quiet_def)
  from closeLoop_quiet[OF this] c e kl show ?thesis
    by (simp add: closeAllConnections_def Let_def closeEvents_def consoleError_def
        closeConn_def clientCall_def)
qed


theorem closeAll_first_failure_witness:
  "closeAllConnections manager2 worldF =
     (Inr (), manager2,
      worldF\<lparr>tick := 1, trace := [Close conn1, ConsoleError ''socket hang up'']\<rparr>)"
  using closeAll_first_failure [of 0 manager2 worldF "Error ''socket hang up''"]
  by (simp add: closeEvents_def manager2_def worldF_def world0_def quiet_def)

text \<open>
  Claim C5, as stated, fails: with two cached tenant handles and a master handle, when
  the first close is rejected, closeAllConnections returns normally (the caller gets no
  error), and neither the second tenant handle nor the master handle is ever closed.
\<close>

theorem closeAll_failure_counterexample:
  "fault worldF (tick worldF) = Some (Error ''socket hang up'') \<and>
   fst (closeAllConnections manager2 worldF) = Inr () \<and>
   trace (snd (snd (closeAllConnections manager2 worldF))) =
     [Close conn1, ConsoleError ''socket hang up''] \<and>
   Close conn2 \<notin> set (trace (snd (snd (closeAllConnections manager2 worldF)))) \<and>
   Close conn0 \<notin> set (trace (snd (snd (closeAllConnections manager2 worldF))))"
  by (simp add: closeAllConnections_def manager2_def worldF_def world0_def closeConn_def
      clientCall_def consoleError_def conn0_def conn1_def conn2_def)

text \<open>
  Claim C4, as stated, fails: after a teardown in which every close succeeds, the
  master slot still holds the master handle.
\<close>

theorem closeAll_master_slot_counterexample:
  "closeAllConnections manager2 world0 =
     (Inr (), \<lparr>connections = [], masterConnection = Some conn0\<rparr>,
      world0\<lparr>tick := 3, trace := [Close conn1, Close conn2, Close conn0]\<rparr>) \<and>
   masterConnection (fst (snd (closeAllConnections manager2 world0))) \<noteq> None"
  by (simp add: closeAllConnections_def manager2_def world0_def closeConn_def
      clientCall_def consoleError_def Let_def)

text \<open>
  Claim C4, amended. closeAllConnections returns normally, the first time and the
  second, and never changes the master slot: the slot keeps the handle it held. When no
  close of the first call is rejected, the cache is empty after it and every handle has
  been closed, tenant handles in cache order and then the master handle. The second call
  leaves the registry as it is and closes no tenant handle; it closes the master handle
  again if the slot holds one (logging the error if that close is rejected), and does
  nothing at all if the slot is empty.
\<close>

theorem closeAll_twice:
  "closeAllConnections m w = (r, m1, w1) \<Longrightarrow> closeAllConnections m1 w1 = (r2, m2, w2) \<Longrightarrow>
     r = Inr () \<and> r2 = Inr () \<and>
     masterConnection m1 = masterConnection m \<and> masterConnection m2 = masterConnection m \<and>
     (quiet w (length (closeEvents m)) \<longrightarrow>
        connections m1 = [] \<and> trace w1 = trace w @ closeEvents m \<and> m2 = m1 \<and>
        trace w2 = trace w1 @
          (case masterConnection m of
             None \<Rightarrow> []
           | Some c \<Rightarrow>
               Close c # (case fault w1 (tick w1) of
                            None \<Rightarrow> []
                          | Some e \<Rightarrow> [ConsoleError (errMessage e)])))"
proof -
  assume a1: "closeAllConnections m w = (r, m1, w1)"
    and a2: "closeAllConnections m1 w1 = (r2, m2, w2)"
  have r: "r = Inr ()" "r2 = Inr ()"
    using closeAll_returns[of m w] closeAll_returns[of m1 w1] a1 a2 by simp_all
  have mc: "masterConnection m1 = masterConnection m" "masterConnection m2 = masterConnection m1"
    using closeAll_master[of m w] closeAll_master[of m1 w1] a1 a2 by simp_all
  have "connections m1 = [] \<and> trace w1 = trace w @ closeEvents m \<and> m2 = m1 \<and>
        trace w2 = trace w1 @
          (case masterConnection m of
             None \<Rightarrow> []
           | Some c \<Rightarrow>
               Close c # (case fault w1 (tick w1) of
                            None \<Rightarrow> []
                          | Some e \<Rightarrow> [ConsoleError (errMessage e)]))"
    if q: "quiet w (length (closeEvents m))"
  proof -
    from closeAll_quiet[OF q] a1
    have m1: "m1 = m\<lparr>connections := []\<rparr>" and w1: "trace w1 = trace w @ closeEvents m"
      by simp_all
    have "m2 = m1 \<and> trace w2 = trace w1 @
          (case masterConnection m of
             None \<Rightarrow> []
           | Some c \<Rightarrow>
               Close c # (case fault w1 (tick w1) of
                            None \<Rightarrow> []
                          | Some e \<Rightarrow> [ConsoleError (errMessage e)]))"
      using a2 m1
      by (auto simp: closeAllConnections_def Let_def closeConn_def clientCall_def
          consoleError_def split: option.splits)
    then show ?thesis using m1 w1 by simp
  qed
  then show ?thesis using r mc by simp
qed

theorem closeAll_twice_witness:
  "closeAllConnections manager2 world0 =
     (Inr (), \<lparr>connections = [], masterConnection = Some conn0\<rparr>,
      world0\<lparr>tick := 3, trace := [Close conn1, Close conn2, Close conn0]\<rparr>) \<and>
   closeAllConnections \<lparr>connections = [], masterConnection = Some conn0\<rparr>
      (world0\<lparr>tick := 3, trace := [Close conn1, Close conn2, Close conn0]\<rparr>) =
     (Inr (), \<lparr>connections = [], masterConnection = Some conn0\<rparr>,
      world0\<lparr>tick := 4, trace := [Close conn1, Close conn2, Close conn0, Close conn0]\<rparr>) \<and>
   quiet world0 (length (closeEvents manager2))"
proof -
  have a1: "closeAllConnections manager2 world0 =
     (Inr (), \<lparr>connections = [], masterConnection = Some conn0\<rparr>,
      world0\<lparr>tick := 3, trace := [Close conn1, Close conn2, Close conn0]\<rparr>)"
    by (simp add: closeAllConnections_def manager2_def world0_def closeConn_def
      clientCall_def consoleError_def Let_def)
  have a2: "closeAllConnections \<lparr>connections = [], masterConnection = Some conn0\<rparr>
      (world0\<lparr>tick := 3, trace := [Close conn1, Close conn2, Close conn0]\<rparr>) =
     (Inr (), \<lparr>connections = [], masterConnection = Some conn0\<rparr>,
      world0\<lparr>tick := 4, trace := [Close conn1, Close conn2, Close conn0, Close conn0]\<rparr>)"
    by (simp add: closeAllConnections_def world0_def closeConn_def
      clientCall_def consoleError_def Let_def)
  have q: "quiet world0 (length (closeEvents manager2))"
    by (simp add: quiet_def closeEvents_def manager2_def world0_def eval_nat_numeral)
  from closeAll_twice[OF a1 a2] a1 a2 q show ?thesis by simp
qed

lemma getTenantDB_master:
  "masterConnection (fst (snd (getTenantDB v m w))) = masterConnection m"
  by (simp add: getTenantDB_def Let_def split: option.splits prod.splits sum.splits)

lemma createTenantDB_master:
  "masterConnection (fst (snd (createTenantDB v m w))) = masterConnection m"
  using getTenantDB_master[of v m w]
  by (auto simp: createTenantDB_def split: prod.splits sum.splits)

lemma closeTenantConnection_master:
  "masterConnection (fst (snd (closeTenantConnection v m w))) = masterConnection m"
  by (simp add: closeTenantConnection_def split: option.splits prod.splits)


lemma initializeMasterDB_ok:
  "initializeMasterDB m w = (Inr c, m', w') \<Longrightarrow> m' = m\<lparr>masterConnection := Some c\<rparr>"
  by (auto simp: initializeMasterDB_def Let_def split: prod.splits sum.splits)

lemma initializeMasterDB_fail:
  "initializeMasterDB m w = (Inl e, m', w') \<Longrightarrow> m' = m"
  by (auto simp: initializeMasterDB_def Let_def split: prod.splits sum.splits)

lemma invoke_master:
  "invoke c (m, w, g) = (m', w', g') \<Longrightarrow> masterConnection m = g \<Longrightarrow> masterConnection m' = g'"
proof (cases c)
  case InitializeMasterDB
  assume a: "invoke c (m, w, g) = (m', w', g')" "masterConnection m = g"
  show ?thesis
  proof (cases "initializeMasterDB m w")
    case (fields r m2 w2)
    then show ?thesis
      using a InitializeMasterDB initializeMasterDB_ok[of m w _ m2 w2]
        initializeMasterDB_fail[of m w _ m2 w2]
      by (cases r) auto
  qed
next
  case (GetTenantDB v)
  assume "invoke c (m, w, g) = (m', w', g')" "masterConnection m = g"
  then show ?thesis using GetTenantDB getTenantDB_master[of v m w]
    by (auto split: prod.splits)
next
  case (CreateTenantDB v)
  assume "invoke c (m, w, g) = (m', w', g')" "masterConnection m = g"
  then show ?thesis using CreateTenantDB createTenantDB_master[of v m w]
    by (auto split: prod.splits)
next
  case (CloseTenantConnection v)
  assume "invoke c (m, w, g) = (m', w', g')" "masterConnection m = g"
  then show ?thesis using CloseTenantConnection closeTenantConnection_master[of v m w]
    by (auto split: prod.splits)
next
  case CloseAllConnections
  assume "invoke c (m, w, g) = (m', w', g')" "masterConnection m = g"
  then show ?thesis using CloseAllConnections closeAll_master[of m w]
    by (auto split: prod.splits)
next
  case GetMasterConnection
  assume "invoke c (m, w, g) = (m', w', g')" "masterConnection m = g"
  then show ?thesis using GetMasterConnection by simp
qed

lemma runCalls_master:
  "runCalls cs (m, w, g) = (m', w', g') \<Longrightarrow> masterConnection m = g \<Longrightarrow> masterConnection m' = g'"
proof (induction cs arbitrary: m w g)
  case Nil
  then show ?case by simp
next
  case (Cons c cs)
  obtain m2 w2 g2 where i: "invoke c (m, w, g) = (m2, w2, g2)"
    by (cases "invoke c (m, w, g)")
  have "masterConnection m2 = g2" using invoke_master[OF i Cons.prems(2)] .
  moreover have "runCalls cs (m2, w2, g2) = (m', w', g')" using Cons.prems(1) i by simp
  ultimately show ?case by (rule Cons.IH[rotated])
qed

text \<open>
  Claim C8. After any sequence of calls of the registry's methods on a new registry,
  getMasterConnection returns the handle of the latest successful initializeMasterDB if
  there was one, and throws "Master database not initialized" if there was none; a call
  of initializeMasterDB that failed does not count, it leaves the slot as it was.
\<close>

theorem getMasterConnection_after_calls:
  "runCalls cs (newDatabaseManager, w, None) = (m, w', g) \<Longrightarrow>
     getMasterConnection m =
       (case g of None \<Rightarrow> Inl (Error ''Master database not initialized'') | Some c \<Rightarrow> Inr c)"
proof -
  assume "runCalls cs (newDatabaseManager, w, None) = (m, w', g)"
  then have "masterConnection m = g"
    by (rule runCalls_master) (simp add: newDatabaseManager_def)
  then show ?thesis by (simp add: getMasterConnection_def)
qed


theorem getMasterConnection_after_calls_witness:
  "getMasterConnection
     (fst (runCalls [InitializeMasterDB] (newDatabaseManager, worldF, None))) =
     Inl (Error ''Master database not initialized'') \<and>
   getMasterConnection
     (fst (runCalls [InitializeMasterDB, GetTenantDB (JStr ''acme''), InitializeMasterDB,
                     CloseAllConnections] (newDatabaseManager, worldF, None))) =
     Inr \<lparr>connId = 1, connString = ''mongodb://db/master_tenant_db?w=1''\<rparr>"
proof -
  let ?s1 = "runCalls [InitializeMasterDB] (newDatabaseManager, worldF, None)"
  let ?s2 = "runCalls [InitializeMasterDB, GetTenantDB (JStr ''acme''), InitializeMasterDB,
                     CloseAllConnections] (newDatabaseManager, worldF, None)"
  have g1: "snd (snd ?s1) = None"
    by (simp add: initializeMasterDB_def createConnection_def clientCall_def worldF_def
        world0_def Let_def)
  have g2: "snd (snd ?s2) = Some \<lparr>connId = 1, connString = ''mongodb://db/master_tenant_db?w=1''\<rparr>"
    by (simp add: initializeMasterDB_def createConnection_def clientCall_def worldF_def
        world0_def Let_def getTenantDB_def closeAllConnections_def consoleError_def
        newDatabaseManager_def truthy_def mapGet_def toStr_def closeConn_def)
  have "getMasterConnection (fst ?s1) =
       (case snd (snd ?s1) of None \<Rightarrow> Inl (Error ''Master database not initialized'') | Some c \<Rightarrow> Inr c)"
    by (rule getMasterConnection_after_calls [of "[InitializeMasterDB]" worldF _ "fst (snd ?s1)"])
      (simp only: prod.collapse)
  moreover have "getMasterConnection (fst ?s2) =
       (case snd (snd ?s2) of None \<Rightarrow> Inl (Error ''Master database not initialized'') | Some c \<Rightarrow> Inr c)"
    by (rule getMasterConnection_after_calls [of "[InitializeMasterDB, GetTenantDB (JStr ''acme''),
          InitializeMasterDB, CloseAllConnections]" worldF _ "fst (snd ?s2)"])
      (simp only: prod.collapse)
  ultimately show ?thesis using g1 g2 by simp
qed


lemma mapGet_mapSet_other: "k \<noteq> v \<Longrightarrow> mapGet (mapSet es v c) k = mapGet es k"
  by (induction es) (auto simp: mapGet_def)

lemma getTenantDB_keeps:
  "mapGet (connections m) k = Some h \<Longrightarrow>
     mapGet (connections (fst (snd (getTenantDB v m w)))) k = Some h"
  by (cases "k = v")
     (auto simp: getTenantDB_def Let_def mapGet_mapSet_other split: option.splits prod.splits sum.splits)

lemma createTenantDB_keeps:
  "mapGet (connections m) k = Some h \<Longrightarrow>
     mapGet (connections (fst (snd (createTenantDB v m w)))) k = Some h"
  using getTenantDB_keeps[of m k h v w]
  by (auto simp: createTenantDB_def split: prod.splits sum.splits)

lemma initializeMasterDB_keeps:
  "connections (fst (snd (initializeMasterDB m w))) = connections m"
  by (simp add: initializeMasterDB_def Let_def split: prod.splits sum.splits)

lemma invoke_keeps:
  assumes "\<not> closesHandles c" "mapGet (connections m) k = Some h"
    and "invoke c (m, w, g) = (m', w', g')"
  shows "mapGet (connections m') k = Some h"
proof (cases c)
  case InitializeMasterDB
  then show ?thesis using assms(2,3) initializeMasterDB_keeps[of m w]
    by (auto split: prod.splits sum.splits)
next
  case (GetTenantDB v)
  then show ?thesis using assms(2,3) getTenantDB_keeps[of m k h v w]
    by (auto split: prod.splits)
next
  case (CreateTenantDB v)
  then show ?thesis using assms(2,3) createTenantDB_keeps[of m k h v w]
    by (auto split: prod.splits)
next
  case (CloseTenantConnection v)
  then show ?thesis using assms(1) by simp
next
  case CloseAllConnections
  then show ?thesis using assms(1) by simp
next
  case GetMasterConnection
  then show ?thesis using assms(2,3) by simp
qed

lemma runCalls_keeps:
  "list_all (\<lambda>c. \<not> closesHandles c) cs \<Longrightarrow> mapGet (connections m) k = Some h \<Longrightarrow>
     runCalls cs (m, w, g) = (m', w', g') \<Longrightarrow> mapGet (connections m') k = Some h"
proof (induction cs arbitrary: m w g)
  case Nil
  then show ?case by simp
next
  case (Cons c cs)
  obtain m2 w2 g2 where i: "invoke c (m, w, g) = (m2, w2, g2)"
    by (cases "invoke c (m, w, g)")
  have "mapGet (connections m2) k = Some h"
    using invoke_keeps[OF _ Cons.prems(2) i] Cons.prems(1) by simp
  moreover have "runCalls cs (m2, w2, g2) = (m', w', g')" using Cons.prems(3) i by simp
  moreover have "list_all (\<lambda>c. \<not> closesHandles c) cs" using Cons.prems(1) by simp
  ultimately show ?case using Cons.IH by blast
qed

text \<open>
  Claim C3. If getTenantDB returned the handle \<open>h\<close> for a non-empty identifier, then a
  second call with that identifier, directly after the first or after any calls of the
  registry that close no handle, returns the same \<open>h\<close>, leaves the registry as it is, and
  adds to the world the mark of the call only: no call of the client. If the first call
  missed the cache, the connection it created has the connection string of the database
  \<open>tenant_\<close> followed by the identifier, it is appended to the cache under the identifier,
  and the creation is the one call of the client that was made.
\<close>

theorem getTenantDB_cached:
  assumes "s \<noteq> []" and "getTenantDB (JStr s) m w = (Inr h, m1, w1)"
    and "list_all (\<lambda>c. \<not> closesHandles c) cs"
    and "runCalls cs (m1, w1, g) = (m2, w2, g2)"
  shows "getTenantDB (JStr s) m2 w2 =
           (Inr h, m2, w2\<lparr>trace := trace w2 @ [Enter_getTenantDB (JStr s)]\<rparr>) \<and>
         (mapGet (connections m) (JStr s) = None \<longrightarrow>
            connString h = MONGODB_URI w @ ''tenant_'' @ s @ ''?'' @ MONGODB_OPTIONS w \<and>
            connections m1 = connections m @ [(JStr s, h)] \<and>
            mapGet (connections m1) (JStr s) = Some h \<and>
            trace w1 = trace w @ [Enter_getTenantDB (JStr s), CreateConnection (connString h)])"
proof -
  have t: "truthy (JStr s)" using assms(1) by (simp add: truthy_def)
  have first: "mapGet (connections m1) (JStr s) = Some h \<and>
         (mapGet (connections m) (JStr s) = None \<longrightarrow>
            connString h = MONGODB_URI w @ ''tenant_'' @ s @ ''?'' @ MONGODB_OPTIONS w \<and>
            connections m1 = connections m @ [(JStr s, h)] \<and>
            trace w1 = trace w @ [Enter_getTenantDB (JStr s), CreateConnection (connString h)])"
  proof (cases "mapGet (connections m) (JStr s)")
    case None
    note miss = getTenantDB_miss_ok[OF t None assms(2)]
    have "mapGet (connections m1) (JStr s) = Some h"
      using miss(2) None by (simp add: mapGet_def map_add_def)
    moreover have "connString h = MONGODB_URI w @ ''tenant_'' @ s @ ''?'' @ MONGODB_OPTIONS w"
      using miss(1) by (simp add: toStr_def)
    moreover have "connections m1 = connections m @ [(JStr s, h)]"
      using miss(2) by simp
    moreover have "trace w1 = trace w @ [Enter_getTenantDB (JStr s), CreateConnection (connString h)]"
      using miss(1,3) by simp
    ultimately show ?thesis by simp
  next
    case (Some c)
    have "getTenantDB (JStr s) m w =
       (Inr c, m, w\<lparr>trace := trace w @ [Enter_getTenantDB (JStr s)]\<rparr>)"
      using t Some by (rule getTenantDB_hit)
    then have "h = c" "m1 = m" using assms(2) by simp_all
    then show ?thesis using Some by simp
  qed
  then have "mapGet (connections m2) (JStr s) = Some h"
    using runCalls_keeps[OF assms(3) _ assms(4)] by blast
  then have "getTenantDB (JStr s) m2 w2 =
           (Inr h, m2, w2\<lparr>trace := trace w2 @ [Enter_getTenantDB (JStr s)]\<rparr>)"
    using t by (intro getTenantDB_hit)
  then show ?thesis using first by blast
qed

lemma world0_run:
  "runCalls [GetTenantDB (JStr ''beta''), InitializeMasterDB]
     (\<lparr>connections = [(JStr ''acme'', conn1)], masterConnection = None\<rparr>,
      world0\<lparr>tick := 1, nextConnId := 2,
        trace := [Enter_getTenantDB (JStr ''acme''),
                  CreateConnection ''mongodb://db/tenant_acme?w=1'']\<rparr>, None) =
     (\<lparr>connections = [(JStr ''acme'', conn1), (JStr ''beta'', conn2)],
       masterConnection = Some \<lparr>connId = 3, connString = ''mongodb://db/master_tenant_db?w=1''\<rparr>\<rparr>,
      world0\<lparr>tick := 3, nextConnId := 4,
        trace := [Enter_getTenantDB (JStr ''acme''),
                  CreateConnection ''mongodb://db/tenant_acme?w=1'',
                  Enter_getTenantDB (JStr ''beta''),
                  CreateConnection ''mongodb://db/tenant_beta?w=1'',
                  CreateConnection ''mongodb://db/master_tenant_db?w=1'']\<rparr>,
      Some \<lparr>connId = 3, connString = ''mongodb://db/master_tenant_db?w=1''\<rparr>)"
  by (simp add: getTenantDB_def Let_def truthy_def mapGet_def world0_def
      createConnection_def clientCall_def toStr_def conn1_def conn2_def initializeMasterDB_def)

theorem getTenantDB_cached_witness:
  "getTenantDB (JStr ''acme'') newDatabaseManager (world0\<lparr>nextConnId := 1\<rparr>) =
     (Inr conn1, \<lparr>connections = [(JStr ''acme'', conn1)], masterConnection = None\<rparr>,
      world0\<lparr>tick := 1, nextConnId := 2,
        trace := [Enter_getTenantDB (JStr ''acme''),
                  CreateConnection ''mongodb://db/tenant_acme?w=1'']\<rparr>) \<and>
   list_all (\<lambda>c. \<not> closesHandles c) [GetTenantDB (JStr ''beta''), InitializeMasterDB] \<and>
   fst (getTenantDB (JStr ''acme'')
     \<lparr>connections = [(JStr ''acme'', conn1), (JStr ''beta'', conn2)],
       masterConnection = Some \<lparr>connId = 3, connString = ''mongodb://db/master_tenant_db?w=1''\<rparr>\<rparr>
     (world0\<lparr>tick := 3, nextConnId := 4,
        trace := [Enter_getTenantDB (JStr ''acme''),
                  CreateConnection ''mongodb://db/tenant_acme?w=1'',
                  Enter_getTenantDB (JStr ''beta''),
                  CreateConnection ''mongodb://db/tenant_beta?w=1'',
                  CreateConnection ''mongodb://db/master_tenant_db?w=1'']\<rparr>)) = Inr conn1 \<and>
   connString conn1 = ''mongodb://db/'' @ ''tenant_'' @ ''acme'' @ ''?'' @ ''w=1''"
proof -
  have l: "list_all (\<lambda>c. \<not> closesHandles c) [GetTenantDB (JStr ''beta''), InitializeMasterDB]"
    by simp
  have ne: "''acme'' \<noteq> []" by simp
  from getTenantDB_cached [OF ne world0_first_call l world0_run] world0_first_call l
  show ?thesis by (simp add: conn1_def)
qed


section \<open>Properties of the Request Context Binder\<close>

lemma ensureMaster_set:
  "masterConnection m \<noteq> None \<Longrightarrow> ensureMaster m w = (None, m, w)"
  by (auto simp: ensureMaster_def)

lemma ensureMaster_init_ok:
  "masterConnection m = None \<Longrightarrow> fault w (tick w) = None \<Longrightarrow>
     ensureMaster m w =
       (None,
        m\<lparr>masterConnection := Some \<lparr>connId = nextConnId w,
             connString = MONGODB_URI w @ ''master_tenant_db'' @ ''?'' @ MONGODB_OPTIONS w\<rparr>\<rparr>,
        w\<lparr>tick := Suc (tick w), nextConnId := Suc (nextConnId w),
          trace := trace w @
            [CreateConnection (MONGODB_URI w @ ''master_tenant_db'' @ ''?'' @ MONGODB_OPTIONS w)]\<rparr>)"
  by (simp add: ensureMaster_def initializeMasterDB_def createConnection_def clientCall_def Let_def)

lemma ensureMaster_init_fail:
  "masterConnection m = None \<Longrightarrow> fault w (tick w) = Some e \<Longrightarrow>
     ensureMaster m w =
       (Some e, m,
        w\<lparr>tick := Suc (tick w),
          trace := trace w @
            [CreateConnection (MONGODB_URI w @ ''master_tenant_db'' @ ''?'' @ MONGODB_OPTIONS w),
             ConsoleError (errMessage e)]\<rparr>)"
  by (simp add: ensureMaster_def initializeMasterDB_def createConnection_def clientCall_def Let_def
      consoleError_def)

lemma ensureMaster_cases:
  obtains
    (ready) c where "masterReady m w" "ensureMaster m w = (None, m\<lparr>masterConnection := Some c\<rparr>, snd (snd (ensureMaster m w)))"
       "masterConnection m \<noteq> None \<longrightarrow> masterConnection m = Some c \<and> snd (snd (ensureMaster m w)) = w"
  | (failed) e where "\<not> masterReady m w" "fault w (tick w) = Some e" "masterConnection m = None"
      "ensureMaster m w = (Some e, m, snd (snd (ensureMaster m w)))"
proof (cases "masterConnection m")
  case None
  show ?thesis
  proof (cases "fault w (tick w)")
    case N2: None
    show ?thesis
      using ensureMaster_init_ok[OF None N2] None N2
      by (intro ready[of "\<lparr>connId = nextConnId w,
             connString = MONGODB_URI w @ ''master_tenant_db'' @ ''?'' @ MONGODB_OPTIONS w\<rparr>"])
         (simp_all add: masterReady_def)
  next
    case (Some e)
    show ?thesis
      using ensureMaster_init_fail[OF None Some] None Some
      by (intro failed[of e]) (simp_all add: masterReady_def)
  qed
next
  case (Some c)
  then show ?thesis
    using ensureMaster_set[of m w]
    by (intro ready[of c]) (simp_all add: masterReady_def)
qed

lemma ensureMaster_trace:
  "filter isFindOne (trace (snd (snd (ensureMaster m w)))) = filter isFindOne (trace w) \<and>
   filter isEnter_getTenantDB (trace (snd (snd (ensureMaster m w)))) = filter isEnter_getTenantDB (trace w) \<and>
   connections (fst (snd (ensureMaster m w))) = connections m"
  by (simp add: ensureMaster_def initializeMasterDB_def createConnection_def clientCall_def Let_def
      consoleError_def split: option.splits)

lemma ensureMaster_None:
  "ensureMaster m w = (None, m1, w1) \<Longrightarrow>
     \<exists>c. masterConnection m1 = Some c \<and> getMasterConnection m1 = Inr c"
  by (auto simp: ensureMaster_def initializeMasterDB_def createConnection_def clientCall_def Let_def
      getMasterConnection_def split: option.splits if_splits)

lemma ensureMaster_Some:
  "ensureMaster m w = (Some e, m1, w1) \<Longrightarrow> \<not> masterReady m w \<and> m1 = m"
  by (auto simp: ensureMaster_def initializeMasterDB_def createConnection_def clientCall_def Let_def
      masterReady_def split: option.splits if_splits)

lemma tenantTry_master_path:
  assumes "extractTenantFromHost (requestHost req) = None \<or>
           startsWith (path req) ''/api/super-admin''"
  shows "tenantTry req m w =
     (case ensureMaster m w of
        (Some e, m1, w1) \<Rightarrow> (Inl e, m1, w1)
      | (None, m1, w1) \<Rightarrow>
          (case getMasterConnection m1 of
             Inl e \<Rightarrow> (Inl e, m1, w1)
           | Inr c \<Rightarrow> (Inr (Next \<lparr>reqDb = c, reqTenant = None, reqTenantId = None\<rparr>), m1, w1)))"
  using assms by (auto simp: tenantTry_def Let_def split: prod.splits option.splits)

lemma tenantTry_tenant_path:
  assumes "extractTenantFromHost (requestHost req) = Some ident"
    and "\<not> startsWith (path req) ''/api/super-admin''"
  shows "tenantTry req m w =
     (case ensureMaster m w of
        (Some e, m1, w1) \<Rightarrow> (Inl e, m1, w1)
      | (None, m1, w1) \<Rightarrow>
          (case findOne ident w1 of
             (Inl e, w2) \<Rightarrow> (Inl e, m1, w2)
           | (Inr None, w2) \<Rightarrow> (Inr tenantNotFound, m1, w2)
           | (Inr (Some t), w2) \<Rightarrow>
               (case getTenantDB (JStr (subdomain t)) m1 w2 of
                  (Inl e, m3, w3) \<Rightarrow> (Inl e, m3, w3)
                | (Inr tenantDB, m3, w3) \<Rightarrow>
                    (Inr (Next \<lparr>reqDb = tenantDB, reqTenant = Some t,
                       reqTenantId = Some (subdomain t)\<rparr>), m3, w3))))"
proof -
  have ne: "ident \<noteq> []" using extract_SomeD[OF assms(1)] by blast
  show ?thesis
  proof (cases "ensureMaster m w")
    case (fields eo m1 w1)
    show ?thesis
    proof (cases eo)
      case None
      then obtain c where "getMasterConnection m1 = Inr c"
        using ensureMaster_None fields by blast
      then show ?thesis using assms ne fields None
        by (simp add: tenantTry_def Let_def)
    next
      case (Some e)
      then show ?thesis using assms ne fields by (simp add: tenantTry_def Let_def)
    qed
  qed
qed

text \<open>
  Claim C6, as stated, fails: a request to the apex host resolves to no tenant, but when
  the master slot is empty and the initialization is rejected, the binder answers
  TENANT_RESOLUTION_ERROR; the master slot stays empty, so no master handle is bound.
\<close>

theorem binder_master_init_counterexample:
  "extractTenantFromHost (requestHost reqApex) = None \<and>
   masterConnection newDatabaseManager = None \<and>
   fault worldF (tick worldF) = Some (Error ''socket hang up'') \<and>
   fst (tenantMiddleware reqApex newDatabaseManager worldF) = Inr tenantResolutionError \<and>
   masterConnection (fst (snd (tenantMiddleware reqApex newDatabaseManager worldF))) = None"
  by (simp add: reqApex_def requestHost_def extractTenantFromHost_def Let_def devPatterns_def
        prodPattern_def regexMatch_def splitColonHead_def worldF_def world0_def
        tenantMiddleware_def tenantTry_def ensureMaster_def initializeMasterDB_def
        createConnection_def clientCall_def consoleError_def
        newDatabaseManager_def)

text \<open>
  Claim C6, amended. For a request whose host resolves to no tenant, or whose path
  starts with /api/super-admin, the binder makes no lookup of a tenant and leaves the
  cache unchanged. If the master handle is there (the slot is filled, or the
  initialization succeeds) it calls next with the master handle of the registry as the
  request's database and with no tenant; a filled slot leaves registry and world
  untouched. If the slot is empty and the initialization is rejected, the binder
  answers TENANT_RESOLUTION_ERROR instead, still without a lookup.
\<close>

theorem binder_master_bound:
  assumes "extractTenantFromHost (requestHost req) = None \<or>
           startsWith (path req) ''/api/super-admin''"
    and "tenantMiddleware req m w = (r, m', w')"
  shows "(masterReady m w \<longrightarrow>
            (\<exists>c. masterConnection m' = Some c \<and>
                 r = Inr (Next \<lparr>reqDb = c, reqTenant = None, reqTenantId = None\<rparr>))) \<and>
         (masterConnection m \<noteq> None \<longrightarrow> m' = m \<and> w' = w) \<and>
         (\<not> masterReady m w \<longrightarrow> r = Inr tenantResolutionError) \<and>
         filter isFindOne (trace w') = filter isFindOne (trace w) \<and>
         connections m' = connections m"
proof -
  note tr = ensureMaster_trace[of m w]
  note tt = tenantTry_master_path[OF assms(1), of m w]
  show ?thesis
  proof (cases rule: ensureMaster_cases[of m w])
    case (ready c)
    let ?m1 = "m\<lparr>masterConnection := Some c\<rparr>" and ?w1 = "snd (snd (ensureMaster m w))"
    have g: "getMasterConnection ?m1 = Inr c" by (simp add: getMasterConnection_def)
    have "tenantTry req m w =
            (Inr (Next \<lparr>reqDb = c, reqTenant = None, reqTenantId = None\<rparr>), ?m1, ?w1)"
      using tt ready(2) g by (metis (no_types, lifting) case_prod_conv option.simps(4) sum.simps(6))
    then have "tenantMiddleware req m w =
            (Inr (Next \<lparr>reqDb = c, reqTenant = None, reqTenantId = None\<rparr>), ?m1, ?w1)"
      by (simp add: tenantMiddleware_def)
    then have r: "r = Inr (Next \<lparr>reqDb = c, reqTenant = None, reqTenantId = None\<rparr>)"
      and m': "m' = ?m1" and w': "w' = ?w1"
      using assms(2) by simp_all
    show ?thesis using r m' w' ready(1,3) tr by auto
  next
    case (failed e)
    let ?w1 = "snd (snd (ensureMaster m w))"
    have "tenantTry req m w = (Inl e, m, ?w1)"
      using tt failed(4) by (metis (no_types, lifting) case_prod_conv option.simps(5))
    then have "tenantMiddleware req m w =
            (Inr tenantResolutionError, m, consoleError (errMessage e) ?w1)"
      by (simp add: tenantMiddleware_def)
    then have r: "r = Inr tenantResolutionError" and m': "m' = m"
      and w': "w' = consoleError (errMessage e) ?w1"
      using assms(2) by simp_all
    show ?thesis using r m' w' failed(1,3) tr by (simp add: consoleError_def)
  qed
qed

theorem binder_master_bound_witness:
  "extractTenantFromHost (requestHost reqAdmin) = Some ''ghost'' \<and>
   startsWith (path reqAdmin) ''/api/super-admin'' \<and>
   fst (tenantMiddleware reqAdmin newDatabaseManager world0) =
     Inr (Next \<lparr>reqDb = conn0, reqTenant = None, reqTenantId = None\<rparr>) \<and>
   masterConnection (fst (snd (tenantMiddleware reqAdmin newDatabaseManager world0))) = Some conn0 \<and>
   filter isFindOne (trace (snd (snd (tenantMiddleware reqAdmin newDatabaseManager world0)))) = [] \<and>
   extractTenantFromHost (requestHost reqApex) = None \<and>
   fst (tenantMiddleware reqApex newDatabaseManager worldF) = Inr tenantResolutionError \<and>
   filter isFindOne (trace (snd (snd (tenantMiddleware reqApex newDatabaseManager worldF)))) = []"
proof -
  let ?t = "tenantMiddleware reqAdmin newDatabaseManager world0"
  let ?u = "tenantMiddleware reqApex newDatabaseManager worldF"
  have h1: "extractTenantFromHost (requestHost reqAdmin) = Some ''ghost''"
    by (simp add: reqAdmin_def requestHost_def extractTenantFromHost_def Let_def devPatterns_def
        prodPattern_def regexMatch_def splitColonHead_def)
  have p1: "startsWith (path reqAdmin) ''/api/super-admin''"
    by (simp add: reqAdmin_def startsWith_def)
  have h2: "extractTenantFromHost (requestHost reqApex) = None"
    by (simp add: reqApex_def requestHost_def extractTenantFromHost_def Let_def devPatterns_def
        prodPattern_def regexMatch_def splitColonHead_def)
  have r1: "masterReady newDatabaseManager world0"
    by (simp add: masterReady_def world0_def)
  have r2: "\<not> masterReady newDatabaseManager worldF"
    by (simp add: masterReady_def worldF_def world0_def newDatabaseManager_def)
  have e1: "?t = (fst ?t, fst (snd ?t), snd (snd ?t))" by (simp only: prod.collapse)
  have e2: "?u = (fst ?u, fst (snd ?u), snd (snd ?u))" by (simp only: prod.collapse)
  have m0: "masterConnection (fst (snd ?t)) = Some conn0"
    by (simp add: tenantMiddleware_def tenantTry_def ensureMaster_def initializeMasterDB_def
        createConnection_def clientCall_def Let_def h1 p1 getMasterConnection_def
        newDatabaseManager_def world0_def conn0_def)
  have w0: "trace world0 = []" "trace worldF = []" by (simp_all add: world0_def worldF_def)
  from binder_master_bound[OF disjI2[OF p1] e1] binder_master_bound[OF disjI1[OF h2] e2]
  show ?thesis using h1 p1 h2 r1 r2 m0 w0 by auto
qed

lemma ensureMaster_world:
  "ensureMaster m w = (eo, m1, w1) \<Longrightarrow>
     tenants w1 = tenants w \<and> fault w1 = fault w \<and>
     (eo = None \<longrightarrow> tick w1 = lookupTick m w)"
  by (auto simp: ensureMaster_def initializeMasterDB_def createConnection_def clientCall_def Let_def
      consoleError_def lookupTick_def split: option.splits if_splits)







lemma tenantTry_init_fail:
  "ensureMaster m w = (Some e, m1, w1) \<Longrightarrow> tenantTry req m w = (Inl e, m1, w1)"
  by (simp add: tenantTry_def Let_def)

lemma find_SomeD: "find P xs = Some x \<Longrightarrow> P x"
  by (induction xs) (auto split: if_splits)

lemma binder_lookup_throws:
  assumes "masterReady m w" "extractTenantFromHost (requestHost req) = Some ident"
    and "\<not> startsWith (path req) ''/api/super-admin''"
    and "fault w (lookupTick m w) = Some e"
  shows "fst (tenantTry req m w) = Inl e"
proof -
  obtain eo m1 w1 where em: "ensureMaster m w = (eo, m1, w1)"
    by (cases "ensureMaster m w")
  have "eo = None" using em assms(1) ensureMaster_Some by (cases eo) auto
  then have "tick w1 = lookupTick m w" "fault w1 = fault w"
    using ensureMaster_world[OF em] by simp_all
  then have "fst (findOne ident w1) = Inl e"
    using assms(4) by (simp add: findOne_def clientCall_def)
  then show ?thesis
    unfolding tenantTry_tenant_path[OF assms(2,3)] em \<open>eo = None\<close>
    by (auto split: prod.splits sum.splits option.splits)
qed

lemma binder_connect_throws:
  assumes "masterReady m w" "extractTenantFromHost (requestHost req) = Some ident"
    and "\<not> startsWith (path req) ''/api/super-admin''"
    and "fault w (lookupTick m w) = None"
    and "find (\<lambda>t. subdomain t = toLowerCase ident \<and> isActive t) (tenants w) = Some t"
    and "mapGet (connections m) (JStr (subdomain t)) = None"
    and "fault w (Suc (lookupTick m w)) = Some e"
  shows "fst (tenantTry req m w) = Inl e"
proof -
  obtain eo m1 w1 where em: "ensureMaster m w = (eo, m1, w1)"
    by (cases "ensureMaster m w")
  have eo: "eo = None" using em assms(1) ensureMaster_Some by (cases eo) auto
  then have w1: "tick w1 = lookupTick m w" "fault w1 = fault w" "tenants w1 = tenants w"
    using ensureMaster_world[OF em] by simp_all
  have cn: "connections m1 = connections m" using ensureMaster_trace[of m w] em by simp
  have sub: "subdomain t = toLowerCase ident" using find_SomeD[OF assms(5)] by simp
  have "ident \<noteq> []" using extract_SomeD[OF assms(2)] by blast
  then have ne: "subdomain t \<noteq> []" using sub by (simp add: toLowerCase_def)
  let ?w2 = "w1\<lparr>tick := Suc (tick w1), trace := trace w1 @ [FindOne ident]\<rparr>"
  have fo: "findOne ident w1 = (Inr (Some t), ?w2)"
    using w1 assms(4,5) by (simp add: findOne_def clientCall_def)
  have "fst (getTenantDB (JStr (subdomain t)) m1 ?w2) = Inl e"
    using w1 cn ne assms(6,7)
    by (simp add: getTenantDB_def Let_def truthy_def createConnection_def clientCall_def)
  then show ?thesis
    unfolding tenantTry_tenant_path[OF assms(2,3)] em eo
    using fo by (auto split: prod.splits sum.splits)
qed

text \<open>
  Claim C7. The binder always ends with an outcome, never with an exception, and every
  exception of the try block becomes the TENANT_RESOLUTION_ERROR response with status
  500. The steps that can throw do reach the catch: a rejected master initialization,
  a rejected lookup of the tenant, and a rejected creation of the tenant connection.
  (The extraction of the host is a total function: it has no throw to catch.)
\<close>

theorem binder_catches:
  "(\<exists>out. fst (tenantMiddleware req m w) = Inr out) \<and>
   (\<forall>e. fst (tenantTry req m w) = Inl e \<longrightarrow>
      fst (tenantMiddleware req m w) = Inr tenantResolutionError) \<and>
   (masterConnection m = None \<and> fault w (tick w) = Some e1 \<longrightarrow>
      fst (tenantTry req m w) = Inl e1) \<and>
   (masterReady m w \<and> extractTenantFromHost (requestHost req) = Some ident \<and>
    \<not> startsWith (path req) ''/api/super-admin'' \<and> fault w (lookupTick m w) = Some e2 \<longrightarrow>
      fst (tenantTry req m w) = Inl e2) \<and>
   (masterReady m w \<and> extractTenantFromHost (requestHost req) = Some ident \<and>
    \<not> startsWith (path req) ''/api/super-admin'' \<and> fault w (lookupTick m w) = None \<and>
    find (\<lambda>t. subdomain t = toLowerCase ident \<and> isActive t) (tenants w) = Some t \<and>
    mapGet (connections m) (JStr (subdomain t)) = None \<and>
    fault w (Suc (lookupTick m w)) = Some e3 \<longrightarrow>
      fst (tenantTry req m w) = Inl e3)"
proof (intro conjI allI impI)
  show "\<exists>out. fst (tenantMiddleware req m w) = Inr out"
    by (simp add: tenantMiddleware_def split: prod.splits sum.splits)
next
  fix e assume "fst (tenantTry req m w) = Inl e"
  then show "fst (tenantMiddleware req m w) = Inr tenantResolutionError"
    by (auto simp: tenantMiddleware_def split: prod.splits sum.splits)
next
  assume "masterConnection m = None \<and> fault w (tick w) = Some e1"
  then have "ensureMaster m w = (Some e1, m, snd (snd (ensureMaster m w)))"
    using ensureMaster_init_fail[of m w e1] by simp
  then show "fst (tenantTry req m w) = Inl e1"
    using tenantTry_init_fail[of m w e1 m _ req] by simp
next
  assume "masterReady m w \<and> extractTenantFromHost (requestHost req) = Some ident \<and>
    \<not> startsWith (path req) ''/api/super-admin'' \<and> fault w (lookupTick m w) = Some e2"
  then show "fst (tenantTry req m w) = Inl e2"
    using binder_lookup_throws by blast
next
  assume "masterReady m w \<and> extractTenantFromHost (requestHost req) = Some ident \<and>
    \<not> startsWith (path req) ''/api/super-admin'' \<and> fault w (lookupTick m w) = None \<and>
    find (\<lambda>t. subdomain t = toLowerCase ident \<and> isActive t) (tenants w) = Some t \<and>
    mapGet (connections m) (JStr (subdomain t)) = None \<and>
    fault w (Suc (lookupTick m w)) = Some e3"
  then show "fst (tenantTry req m w) = Inl e3"
    using binder_connect_throws[of m w req ident t e3] by blast
qed

theorem binder_catches_witness:
  "fst (tenantMiddleware reqUpper newDatabaseManager (worldFaultAt 0)) = Inr tenantResolutionError \<and>
   fst (tenantMiddleware reqUpper newDatabaseManager (worldFaultAt 1)) = Inr tenantResolutionError \<and>
   fst (tenantMiddleware reqUpper newDatabaseManager (worldFaultAt 2)) = Inr tenantResolutionError \<and>
   fault (worldFaultAt 0) (tick (worldFaultAt 0)) = Some (Error ''socket hang up'') \<and>
   fault (worldFaultAt 1) (lookupTick newDatabaseManager (worldFaultAt 1)) =
     Some (Error ''socket hang up'') \<and>
   fault (worldFaultAt 2) (Suc (lookupTick newDatabaseManager (worldFaultAt 2))) =
     Some (Error ''socket hang up'')"
proof -
  let ?e = "Error ''socket hang up''"
  let ?t = "\<lparr>subdomain = ''acme'', isActive = True, companyName = ''Acme''\<rparr>"
  have h: "extractTenantFromHost (requestHost reqUpper) = Some ''ACME''"
    by (simp add: reqUpper_def requestHost_def extractTenantFromHost_def Let_def devPatterns_def
        prodPattern_def regexMatch_def splitColonHead_def)
  have p: "\<not> startsWith (path reqUpper) ''/api/super-admin''"
    by (simp add: reqUpper_def startsWith_def)
  have m: "masterConnection newDatabaseManager = None"
    "mapGet (connections newDatabaseManager) (JStr (subdomain ?t)) = None"
    by (simp_all add: newDatabaseManager_def mapGet_def)
  have f0: "fault (worldFaultAt 0) (tick (worldFaultAt 0)) = Some ?e"
    by (simp add: worldFaultAt_def world0_def)
  have f1: "masterReady newDatabaseManager (worldFaultAt 1)"
    "fault (worldFaultAt 1) (lookupTick newDatabaseManager (worldFaultAt 1)) = Some ?e"
    by (simp_all add: worldFaultAt_def world0_def masterReady_def lookupTick_def m)
  have f2: "masterReady newDatabaseManager (worldFaultAt 2)"
    "fault (worldFaultAt 2) (lookupTick newDatabaseManager (worldFaultAt 2)) = None"
    "fault (worldFaultAt 2) (Suc (lookupTick newDatabaseManager (worldFaultAt 2))) = Some ?e"
    "find (\<lambda>t. subdomain t = toLowerCase ''ACME'' \<and> isActive t) (tenants (worldFaultAt 2)) =
       Some ?t"
    by (simp_all add: worldFaultAt_def world0_def masterReady_def lookupTick_def m
        toLowerCase_def toLowerChar_def)
  note c0 = binder_catches[of reqUpper newDatabaseManager "worldFaultAt 0" ?e "''ACME''" ?e ?t ?e]
  note c1 = binder_catches[of reqUpper newDatabaseManager "worldFaultAt 1" ?e "''ACME''" ?e ?t ?e]
  note c2 = binder_catches[of reqUpper newDatabaseManager "worldFaultAt 2" ?e "''ACME''" ?e ?t ?e]
  have "fst (tenantMiddleware reqUpper newDatabaseManager (worldFaultAt 0)) = Inr tenantResolutionError"
    using c0 m f0 by blast
  moreover have "fst (tenantMiddleware reqUpper newDatabaseManager (worldFaultAt 1)) = Inr tenantResolutionError"
    using c1 h p f1 by blast
  moreover have "fst (tenantMiddleware reqUpper newDatabaseManager (worldFaultAt 2)) = Inr tenantResolutionError"
    using c2 h p f2 m by blast
  ultimately show ?thesis using f0 f1 f2 by simp
qed

end
